theory Spec2Isabelle
  imports Main "HOL-Library.Word"
begin

section \<open>The chat route of Perplexica: \<^verbatim>\<open>src/app/api/chat/route.ts\<close>\<close>

text \<open>
  The route validates a request body, resolves a chat model and an embedding model,
  looks up the handler of the focus mode, and then starts two activities: the relay of
  the handler's events to the client (\<^verbatim>\<open>handleEmitterEvents\<close>) and the
  reconciliation of the stored history (\<^verbatim>\<open>handleHistorySave\<close>). The development
  embeds each of these functions and states the properties of the specification on them.
\<close>

subsection \<open>JSON values and \<^verbatim>\<open>JSON.stringify\<close>\<close>

text \<open>
  Values that the route receives from \<^verbatim>\<open>req.json()\<close> and \<^verbatim>\<open>JSON.parse\<close>, and
  that it serialises again. Strings are lists of 8-bit characters; numbers are
  restricted to integers, printed in full (\<^verbatim>\<open>JSON.stringify\<close> switches to exponent
  notation from \<^verbatim>\<open>1e21\<close> on, which is not modelled). An object is the list of
  its own properties in key order.
\<close>

datatype json =
    JNull
  | JBool bool
  | JNum int
  | JStr string
  | JArr "json list"
  | JObj "(string \<times> json) list"

definition hexdigits :: string where
  "hexdigits = ''0123456789abcdef''"

definition hex2 :: "nat \<Rightarrow> string" where
  "hex2 n = [hexdigits ! ((n div 16) mod 16), hexdigits ! (n mod 16)]"

text \<open>The quoting of a string by \<^verbatim>\<open>JSON.stringify\<close> (QuoteJSONString of ECMAScript).\<close>

definition escape_char :: "char \<Rightarrow> string" where
  "escape_char c =
     (if c = CHR 0x22 then [CHR 0x5C, CHR 0x22]
      else if c = CHR 0x5C then [CHR 0x5C, CHR 0x5C]
      else if c = CHR 0x08 then [CHR 0x5C, CHR ''b'']
      else if c = CHR 0x0C then [CHR 0x5C, CHR ''f'']
      else if c = CHR 0x0A then [CHR 0x5C, CHR ''n'']
      else if c = CHR 0x0D then [CHR 0x5C, CHR ''r'']
      else if c = CHR 0x09 then [CHR 0x5C, CHR ''t'']
      else if (of_char c :: nat) < 32 then [CHR 0x5C, CHR ''u'', CHR ''0'', CHR ''0''] @ hex2 (of_char c)
      else [c])"

definition quoteJSONString :: "string \<Rightarrow> string" where
  "quoteJSONString s = [CHR 0x22] @ concat (map escape_char s) @ [CHR 0x22]"

function show_nat :: "nat \<Rightarrow> string" where
  "show_nat n = (if n < 10 then [hexdigits ! n] else show_nat (n div 10) @ [hexdigits ! (n mod 10)])"
  by pat_completeness auto
termination
  by (relation "measure id") auto

declare show_nat.simps [simp del]

definition show_int :: "int \<Rightarrow> string" where
  "show_int i = (if i < 0 then CHR ''-'' # show_nat (nat (- i)) else show_nat (nat i))"

fun commas :: "string list \<Rightarrow> string" where
  "commas [] = []"
| "commas [x] = x"
| "commas (x # y # ys) = x @ CHR '','' # commas (y # ys)"

fun stringify :: "json \<Rightarrow> string"
  and elements :: "json list \<Rightarrow> string list"
  and members :: "(string \<times> json) list \<Rightarrow> string list" where
  "stringify JNull = ''null''"
| "stringify (JBool b) = (if b then ''true'' else ''false'')"
| "stringify (JNum i) = show_int i"
| "stringify (JStr s) = quoteJSONString s"
| "stringify (JArr xs) = CHR ''['' # commas (elements xs) @ [CHR '']'']"
| "stringify (JObj kvs) = CHR ''{'' # commas (members kvs) @ [CHR ''}'']"
| "elements [] = []"
| "elements (x # xs) = stringify x # elements xs"
| "members [] = []"
| "members ((k, v) # kvs) = (quoteJSONString k @ CHR '':'' # stringify v) # members kvs"

subsection \<open>The client connection\<close>

text \<open>
  The \<^verbatim>\<open>WritableStreamDefaultWriter\<close> of the response: the chunks written so far, in
  order, and whether \<^verbatim>\<open>close()\<close> has been called. A \<^verbatim>\<open>write\<close> or a
  \<^verbatim>\<open>close\<close> on a closed writer writes nothing and returns a rejected promise, which
  the route never awaits; \<open>rejected\<close> counts them.
\<close>

record stream_writer =
  chunks :: "string list"
  closed :: bool
  rejected :: nat

definition writer_write :: "string \<Rightarrow> stream_writer \<Rightarrow> stream_writer" where
  "writer_write c w =
     (if closed w then w\<lparr>rejected := Suc (rejected w)\<rparr> else w\<lparr>chunks := chunks w @ [c]\<rparr>)"

definition writer_close :: "stream_writer \<Rightarrow> stream_writer" where
  "writer_close w =
     (if closed w then w\<lparr>rejected := Suc (rejected w)\<rparr> else w\<lparr>closed := True\<rparr>)"

subsection \<open>The store\<close>

text \<open>
  Modelled from the spec: the tables \<^verbatim>\<open>chats\<close> and \<^verbatim>\<open>messages\<close> of
  \<^verbatim>\<open>@/lib/db/schema\<close>, which is not part of the sources at hand. A Chat is
  \<open>{id, title, createdAt, focusMode, files}\<close>; a Message is
  \<open>{id, messageId, chatId, role, content, sources, createdAt}\<close> with \<open>id\<close> a
  storage-assigned, monotonically increasing sequence number. A table is the list of its
  rows in insertion order, and \<^verbatim>\<open>findFirst\<close> returns the first row that matches.
\<close>

datatype role = User | Assistant | Source

record chat =
  chat_id :: string
  title :: string
  chat_createdAt :: string
  chat_focusMode :: string
  chat_files :: "json list option"

record message_row =
  row_id :: nat
  row_messageId :: string
  row_chatId :: string
  row_role :: role
  row_content :: "string option"
  row_sources :: "json option"
  row_createdAt :: string

record db =
  chats :: "chat list"
  messages :: "message_row list"
  nextId :: nat

text \<open>The values of an insert into \<^verbatim>\<open>messages\<close>: every column but the id.\<close>

record message_values =
  v_messageId :: string
  v_chatId :: string
  v_role :: role
  v_content :: "string option"
  v_sources :: "json option"
  v_createdAt :: string

text \<open>
  A query of the query builder. Building a query has no effect on the store; only
  \<^verbatim>\<open>.execute()\<close> (or awaiting the query) runs it.
\<close>

datatype query =
    InsertChat chat
  | UpdateChatFiles string "json list"
  | InsertMessage message_values
  | DeleteMessagesAfter nat string

fun execute :: "query \<Rightarrow> db \<Rightarrow> db" where
  "execute (InsertChat c) d = d\<lparr>chats := chats d @ [c]\<rparr>"
| "execute (UpdateChatFiles cid fs) d =
     d\<lparr>chats := map (\<lambda>c. if chat_id c = cid then c\<lparr>chat_files := Some fs\<rparr> else c) (chats d)\<rparr>"
| "execute (InsertMessage v) d =
     d\<lparr>messages := messages d @
          [\<lparr>row_id = nextId d, row_messageId = v_messageId v, row_chatId = v_chatId v,
            row_role = v_role v, row_content = v_content v, row_sources = v_sources v,
            row_createdAt = v_createdAt v\<rparr>],
        nextId := Suc (nextId d)\<rparr>"
| "execute (DeleteMessagesAfter i cid) d =
     d\<lparr>messages := filter (\<lambda>m. \<not> (row_id m > i \<and> row_chatId m = cid)) (messages d)\<rparr>"

subsection \<open>Random identifiers\<close>

text \<open>
  \<^verbatim>\<open>crypto.randomBytes(n).toString('hex')\<close>. The entropy source is a sequence of
  bytes; \<open>k\<close> is the number of bytes drawn so far.
\<close>

definition randomBytes :: "(nat \<Rightarrow> 8 word) \<Rightarrow> nat \<Rightarrow> nat \<Rightarrow> 8 word list" where
  "randomBytes entropy n k = map entropy [k ..< k + n]"

definition toHex :: "8 word list \<Rightarrow> string" where
  "toHex bs = concat (map (\<lambda>b. hex2 (unat b)) bs)"

subsection \<open>The stream bridge: \<^verbatim>\<open>handleEmitterEvents\<close>\<close>

text \<open>
  The events of the handler's emitter. A \<^verbatim>\<open>data\<close> event carries a JSON text; the
  embedding starts from its parsed value \<^verbatim>\<open>parsedData\<close> and keeps the three shapes
  the listener tells apart: type \<^verbatim>\<open>response\<close> with a text fragment, type
  \<^verbatim>\<open>sources\<close> with the citations, and any other type. An \<^verbatim>\<open>error\<close> event
  carries the \<^verbatim>\<open>data\<close> field of its parsed payload.
\<close>

datatype data = Response string | Sources json | Unhandled

datatype event = Data data | End | Error json

text \<open>
  The state of one turn: the two variables of the closure, the client connection, the
  store, and the number of random bytes drawn.
\<close>

record bridge =
  recievedMessage :: string
  aiMessageId :: string
  conn :: stream_writer
  store :: db
  drawn :: nat

definition message_frame :: "string \<Rightarrow> string \<Rightarrow> string" where
  "message_frame mid fragment =
     stringify (JObj [(''type'', JStr ''message''), (''data'', JStr fragment),
                      (''messageId'', JStr mid)]) @ [CHR 0x0A]"

definition sources_frame :: "string \<Rightarrow> json \<Rightarrow> string" where
  "sources_frame mid citations =
     stringify (JObj [(''type'', JStr ''sources''), (''data'', citations),
                      (''messageId'', JStr mid)]) @ [CHR 0x0A]"

definition messageEnd_frame :: string where
  "messageEnd_frame = stringify (JObj [(''type'', JStr ''messageEnd'')]) @ [CHR 0x0A]"

definition error_frame :: "json \<Rightarrow> string" where
  "error_frame d = stringify (JObj [(''type'', JStr ''error''), (''data'', d)])"

text \<open>The listener of \<^verbatim>\<open>data\<close>; \<open>now\<close> is \<^verbatim>\<open>new Date().toString()\<close>.\<close>

fun on_data :: "(nat \<Rightarrow> 8 word) \<Rightarrow> string \<Rightarrow> string \<Rightarrow> data \<Rightarrow> bridge \<Rightarrow> bridge" where
  "on_data entropy chatId now (Response fragment) st =
     st\<lparr>conn := writer_write (message_frame (aiMessageId st) fragment) (conn st),
        recievedMessage := recievedMessage st @ fragment\<rparr>"
| "on_data entropy chatId now (Sources citations) st =
     (let sourceMessageId = toHex (randomBytes entropy 7 (drawn st))
      in st\<lparr>conn := writer_write (sources_frame (aiMessageId st) citations) (conn st),
            drawn := drawn st + 7,
            store := execute (InsertMessage
              \<lparr>v_messageId = sourceMessageId, v_chatId = chatId, v_role = Source,
               v_content = None, v_sources = Some citations, v_createdAt = now\<rparr>) (store st)\<rparr>)"
| "on_data entropy chatId now Unhandled st = st"

text \<open>The listener of \<^verbatim>\<open>end\<close>.\<close>

definition on_end :: "string \<Rightarrow> string \<Rightarrow> bridge \<Rightarrow> bridge" where
  "on_end chatId now st =
     st\<lparr>conn := writer_close (writer_write messageEnd_frame (conn st)),
        store := execute (InsertMessage
          \<lparr>v_messageId = aiMessageId st, v_chatId = chatId, v_role = Assistant,
           v_content = Some (recievedMessage st), v_sources = None, v_createdAt = now\<rparr>) (store st)\<rparr>"

text \<open>The listener of \<^verbatim>\<open>error\<close>.\<close>

definition on_error :: "json \<Rightarrow> bridge \<Rightarrow> bridge" where
  "on_error d st = st\<lparr>conn := writer_close (writer_write (error_frame d) (conn st))\<rparr>"

fun emit :: "(nat \<Rightarrow> 8 word) \<Rightarrow> string \<Rightarrow> string \<times> event \<Rightarrow> bridge \<Rightarrow> bridge" where
  "emit entropy chatId (now, Data p) st = on_data entropy chatId now p st"
| "emit entropy chatId (now, End) st = on_end chatId now st"
| "emit entropy chatId (now, Error d) st = on_error d st"

text \<open>The events of the emitter, delivered in arrival order, each with its clock reading.\<close>

fun deliver :: "(nat \<Rightarrow> 8 word) \<Rightarrow> string \<Rightarrow> (string \<times> event) list \<Rightarrow> bridge \<Rightarrow> bridge" where
  "deliver entropy chatId [] st = st"
| "deliver entropy chatId (e # es) st = deliver entropy chatId es (emit entropy chatId e st)"

text \<open>
  \<^verbatim>\<open>handleEmitterEvents\<close>: the closure starts with an empty \<^verbatim>\<open>recievedMessage\<close> and
  a fresh \<^verbatim>\<open>aiMessageId\<close>, then the listeners run on the events of the stream.
\<close>

definition bridge_init :: "(nat \<Rightarrow> 8 word) \<Rightarrow> stream_writer \<Rightarrow> db \<Rightarrow> nat \<Rightarrow> bridge" where
  "bridge_init entropy w d k =
     \<lparr>recievedMessage = [], aiMessageId = toHex (randomBytes entropy 7 k),
      conn = w, store = d, drawn = k + 7\<rparr>"

definition handleEmitterEvents ::
  "(nat \<Rightarrow> 8 word) \<Rightarrow> (string \<times> event) list \<Rightarrow> stream_writer \<Rightarrow> string \<Rightarrow> db \<Rightarrow> nat \<Rightarrow> bridge" where
  "handleEmitterEvents entropy stream w chatId d k =
     deliver entropy chatId stream (bridge_init entropy w d k)"


text \<open>
  The response stream of \<^verbatim>\<open>POST\<close>: the writer of a new
  \<^verbatim>\<open>TransformStream\<close>, open and with nothing written.
\<close>

definition new_writer :: stream_writer where
  "new_writer = \<lparr>chunks = [], closed = False, rejected = 0\<rparr>"

text \<open>
  Vocabulary for the properties of the bridge: the events that close the connection, the
  client frames that a \<^verbatim>\<open>data\<close> event puts on an open connection under the
  identifier \<open>mid\<close>, and the text fragment an event carries.
\<close>

fun is_terminator :: "event \<Rightarrow> bool" where
  "is_terminator (Data p) = False"
| "is_terminator End = True"
| "is_terminator (Error d) = True"

fun terminal_frame :: "event \<Rightarrow> string" where
  "terminal_frame (Error d) = error_frame d"
| "terminal_frame e = messageEnd_frame"

fun relayed :: "string \<Rightarrow> string \<times> event \<Rightarrow> string list" where
  "relayed mid (now, Data (Response fragment)) = [message_frame mid fragment]"
| "relayed mid (now, Data (Sources citations)) = [sources_frame mid citations]"
| "relayed mid (now, e) = []"

fun fragment :: "string \<times> event \<Rightarrow> string" where
  "fragment (now, Data (Response f)) = f"
| "fragment (now, e) = []"

subsection \<open>The history reconciler: \<^verbatim>\<open>handleHistorySave\<close>\<close>

text \<open>The type \<^verbatim>\<open>Message\<close> inferred from \<^verbatim>\<open>messageSchema\<close>: the turn.\<close>

record turn =
  messageId :: string
  chatId :: string
  content :: string

text \<open>
  \<^verbatim>\<open>getFileDetails\<close> of \<^verbatim>\<open>@/lib/utils/files\<close> is a parameter; \<open>now_chat\<close> and
  \<open>now_message\<close> are the readings of \<^verbatim>\<open>new Date().toString()\<close> at the two
  inserts. The query of lines 221 to 225 is built and dropped: it has no
  \<^verbatim>\<open>.execute()\<close> and is not awaited, unlike the three other queries of the function.
\<close>

definition handleHistorySave ::
  "(string \<Rightarrow> json) \<Rightarrow> string \<Rightarrow> string \<Rightarrow> turn \<Rightarrow> string \<Rightarrow> string \<Rightarrow> string list \<Rightarrow> db \<Rightarrow> db" where
  "handleHistorySave getFileDetails now_chat now_message message humanMessageId focusMode files d =
     (let chat = find (\<lambda>c. chat_id c = chatId message) (chats d);
          fileData = map getFileDetails files;
          d1 = (case chat of
                  None \<Rightarrow>
                    execute (InsertChat
                      \<lparr>chat_id = chatId message, title = content message,
                       chat_createdAt = now_chat, chat_focusMode = focusMode,
                       chat_files = Some fileData\<rparr>) d
                | Some c \<Rightarrow>
                    if stringify (JArr (case chat_files c of None \<Rightarrow> [] | Some fs \<Rightarrow> fs))
                         \<noteq> stringify (JArr fileData)
                    then (let built = UpdateChatFiles (chatId message) (map getFileDetails files)
                          in d)
                    else d);
          messageExists = find (\<lambda>m. row_messageId m = humanMessageId) (messages d1)
      in case messageExists of
           None \<Rightarrow>
             execute (InsertMessage
               \<lparr>v_messageId = humanMessageId, v_chatId = chatId message, v_role = User,
                v_content = Some (content message), v_sources = None,
                v_createdAt = now_message\<rparr>) d1
         | Some m \<Rightarrow> execute (DeleteMessagesAfter (row_id m) (chatId message)) d1)"

subsection \<open>The request schema\<close>

definition DEFAULT_SYSTEM_INSTRUCTIONS :: string where
  "DEFAULT_SYSTEM_INSTRUCTIONS =
     ''You are a trusted Technical Troubleshooting Assistant built to help users fix issues related to gadgets, home appliances, consumer electronics, and hardware devices. Your mission is to give accurate, safe, and actionable guidance '' @ [CHR 0xE2, CHR 0x80, CHR 0x94] @ '' including visual tutorials, clear steps, and trusted references.'' @ [CHR 0x0A] @
     [CHR 0x0A] @
     ''- Always prioritize user safety, device integrity, and ethical practices.'' @ [CHR 0x0A] @
     ''- Do not provide guidance or responses that involve unsafe actions, disassembly of high-voltage parts, illegal modifications, or security circumvention (e.g., unlocking, jailbreaking, bypassing safety locks).'' @ [CHR 0x0A] @
     [CHR 0x0A] @
     ''If the user'' @ [CHR 0xE2, CHR 0x80, CHR 0x99] @ ''s request violates these guardrails, respond politely with a message like:'' @ [CHR 0x0A] @
     [CHR 0x0A] @
     [CHR 0xE2, CHR 0x80, CHR 0x9C] @ ''I'' @ [CHR 0xE2, CHR 0x80, CHR 0x99] @ ''m sorry, I can'' @ [CHR 0xE2, CHR 0x80, CHR 0x99] @ ''t assist with that request as it may be unsafe or unethical. Would you like help diagnosing or maintaining your device safely instead?'' @ [CHR 0xE2, CHR 0x80, CHR 0x9D] @ [CHR 0x0A] @
     [CHR 0x0A] @
     ''Response Structure (Always Follow This Order)'' @ [CHR 0x0A] @
     ''1. Step-by-Step Solution:'' @ [CHR 0x0A] @
     ''- List precise, numbered steps for troubleshooting or fixing the problem.'' @ [CHR 0x0A] @
     ''- Use short sentences.'' @ [CHR 0x0A] @
     ''- If you need special tools, please just mention them.'' @ [CHR 0x0A] @
     ''- Only include steps that are safe for non-professionals. Do not add long answers'' @ [CHR 0x0A] @
     [CHR 0x0A] @
     ''2. Safety & Caution:'' @ [CHR 0x0A] @
     ''Mention key precautions.'' @ [CHR 0x0A] @
     ''If a step could be unsafe for general users, instruct them not to proceed and recommend contacting a professional.'' @ [CHR 0x0A] @
     [CHR 0x0A] @
     ''Guardrails (Strict Rules):'' @ [CHR 0x0A] @
     [CHR 0x0A] @
     ''You must refuse or redirect if the user request involves:'' @ [CHR 0x0A] @
     ''- Bypassing device security, DRM, or software restrictions (unlocking, rooting, etc.)'' @ [CHR 0x0A] @
     ''- Actions that could cause personal injury, fire, electric shock, or data loss'' @ [CHR 0x0A] @
     [CHR 0x0A] @
     ''If the issue requires professional advice or hel, please mention the same at the end''"

datatype optimization = Speed | Balanced | Quality

record model_ref =
  provider :: "string option"
  name :: "string option"

text \<open>The type \<^verbatim>\<open>Body\<close>; a \<^verbatim>\<open>null\<close> \<open>systemInstructions\<close> is \<open>None\<close>.\<close>

record body =
  message :: turn
  optimizationMode :: optimization
  focusMode :: string
  history :: "(string \<times> string) list"
  files :: "string list"
  chatModel :: model_ref
  embeddingModel :: model_ref
  systemInstructions :: "string option"

text \<open>
  The schemas of zod. A schema takes the value of a property, \<open>None\<close> when the property
  is absent (\<^verbatim>\<open>undefined\<close>), and returns the parsed value, or \<open>None\<close> when zod
  reports an issue. Unknown properties of an object are stripped.
\<close>

definition z_string :: "json option \<Rightarrow> string option" where
  "z_string x = (case x of Some (JStr s) \<Rightarrow> Some s | _ \<Rightarrow> None)"

definition z_string_min :: "nat \<Rightarrow> json option \<Rightarrow> string option" where
  "z_string_min n x =
     (case z_string x of Some s \<Rightarrow> if length s < n then None else Some s | None \<Rightarrow> None)"

definition z_string_optional :: "json option \<Rightarrow> string option option" where
  "z_string_optional x = (case x of None \<Rightarrow> Some None | Some j \<Rightarrow> map_option Some (z_string (Some j)))"

definition messageSchema :: "json option \<Rightarrow> turn option" where
  "messageSchema x =
     (case x of
        Some (JObj kvs) \<Rightarrow>
          (case (z_string_min 1 (map_of kvs ''messageId''), z_string_min 1 (map_of kvs ''chatId''),
                 z_string_min 1 (map_of kvs ''content'')) of
             (Some mid, Some cid, Some c) \<Rightarrow> Some \<lparr>messageId = mid, chatId = cid, content = c\<rparr>
           | _ \<Rightarrow> None)
      | _ \<Rightarrow> None)"

definition chatModelSchema :: "json option \<Rightarrow> model_ref option" where
  "chatModelSchema x =
     (case x of
        Some (JObj kvs) \<Rightarrow>
          (case (z_string_optional (map_of kvs ''provider''), z_string_optional (map_of kvs ''name'')) of
             (Some p, Some n) \<Rightarrow> Some \<lparr>provider = p, name = n\<rparr>
           | _ \<Rightarrow> None)
      | _ \<Rightarrow> None)"

definition embeddingModelSchema :: "json option \<Rightarrow> model_ref option" where
  "embeddingModelSchema x =
     (case x of
        Some (JObj kvs) \<Rightarrow>
          (case (z_string_optional (map_of kvs ''provider''), z_string_optional (map_of kvs ''name'')) of
             (Some p, Some n) \<Rightarrow> Some \<lparr>provider = p, name = n\<rparr>
           | _ \<Rightarrow> None)
      | _ \<Rightarrow> None)"

text \<open>\<^verbatim>\<open>schema.optional().default({})\<close>: an absent property is parsed as the empty object.\<close>

definition z_default_empty_object :: "(json option \<Rightarrow> 'a option) \<Rightarrow> json option \<Rightarrow> 'a option" where
  "z_default_empty_object schema x =
     (case x of None \<Rightarrow> schema (Some (JObj [])) | Some j \<Rightarrow> schema (Some j))"

definition optimizationSchema :: "json option \<Rightarrow> optimization option" where
  "optimizationSchema x =
     (case x of
        Some (JStr s) \<Rightarrow>
          if s = ''speed'' then Some Speed
          else if s = ''balanced'' then Some Balanced
          else if s = ''quality'' then Some Quality
          else None
      | _ \<Rightarrow> None)"

fun tupleSchema :: "json \<Rightarrow> (string \<times> string) option" where
  "tupleSchema (JArr [JStr a, JStr b]) = Some (a, b)"
| "tupleSchema j = None"

definition historySchema :: "json option \<Rightarrow> (string \<times> string) list option" where
  "historySchema x =
     (case x of None \<Rightarrow> Some [] | Some (JArr xs) \<Rightarrow> those (map tupleSchema xs) | _ \<Rightarrow> None)"

definition filesSchema :: "json option \<Rightarrow> string list option" where
  "filesSchema x =
     (case x of
        None \<Rightarrow> Some []
      | Some (JArr xs) \<Rightarrow> those (map (\<lambda>j. z_string (Some j)) xs)
      | _ \<Rightarrow> None)"

text \<open>
  \<^verbatim>\<open>z.string().nullable().optional().default(DEFAULT_SYSTEM_INSTRUCTIONS)\<close>: the
  default replaces an absent property only; \<^verbatim>\<open>null\<close> is accepted by
  \<^verbatim>\<open>nullable\<close> and stays \<^verbatim>\<open>null\<close>.
\<close>

definition systemInstructionsSchema :: "json option \<Rightarrow> string option option" where
  "systemInstructionsSchema x =
     (case x of
        None \<Rightarrow> Some (Some DEFAULT_SYSTEM_INSTRUCTIONS)
      | Some JNull \<Rightarrow> Some None
      | Some (JStr s) \<Rightarrow> Some (Some s)
      | _ \<Rightarrow> None)"

definition bodySchema :: "json \<Rightarrow> body option" where
  "bodySchema j =
     (case j of
        JObj kvs \<Rightarrow>
          Option.bind (messageSchema (map_of kvs ''message'')) (\<lambda>m.
          Option.bind (optimizationSchema (map_of kvs ''optimizationMode'')) (\<lambda>om.
          Option.bind (z_string_min 1 (map_of kvs ''focusMode'')) (\<lambda>fm.
          Option.bind (historySchema (map_of kvs ''history'')) (\<lambda>h.
          Option.bind (filesSchema (map_of kvs ''files'')) (\<lambda>fs.
          Option.bind (z_default_empty_object chatModelSchema (map_of kvs ''chatModel'')) (\<lambda>cm.
          Option.bind (z_default_empty_object embeddingModelSchema (map_of kvs ''embeddingModel'')) (\<lambda>em.
          Option.bind (systemInstructionsSchema (map_of kvs ''systemInstructions'')) (\<lambda>si.
            Some \<lparr>message = m, optimizationMode = om, focusMode = fm, history = h, files = fs,
                  chatModel = cm, embeddingModel = em, systemInstructions = si\<rparr>))))))))
      | _ \<Rightarrow> None)"

text \<open>
  \<^verbatim>\<open>safeValidateBody\<close>. The failure carries zod's list of issues (a path and a
  message each), which the embedding leaves out.
\<close>

datatype issues = Issues

definition safeValidateBody :: "json \<Rightarrow> issues + body" where
  "safeValidateBody data = (case bodySchema data of None \<Rightarrow> Inl Issues | Some b \<Rightarrow> Inr b)"

subsection \<open>The route: \<^verbatim>\<open>POST\<close>\<close>

text \<open>
  A catalog of providers is an object of objects: provider key to model key to an entry,
  of which the route reads the property \<^verbatim>\<open>model\<close> (\<open>None\<close> when it is missing).
  Objects are the lists of their own properties in the order of \<^verbatim>\<open>Object.keys\<close>.
  The properties that a plain object inherits from \<^verbatim>\<open>Object.prototype\<close> (a key
  such as \<^verbatim>\<open>constructor\<close>) are not modelled: a lookup finds own properties only, in
  the catalogs and in the registry of handlers.
\<close>

type_synonym 'm providers = "(string \<times> (string \<times> 'm option) list) list"

record custom_openai =
  apiKey :: string
  modelName :: string
  baseURL :: string

datatype 'm llm = CatalogModel 'm | ChatOpenAI custom_openai

datatype base_message = HumanMessage string | AIMessage string

text \<open>The call \<^verbatim>\<open>handler.searchAndAnswer(...)\<close> and the turn it is made for.\<close>

record ('h, 'm, 'e) invocation =
  handler :: 'h
  query :: string
  inv_history :: "base_message list"
  inv_llm :: "'m llm"
  inv_embedding :: 'e
  inv_optimizationMode :: optimization
  inv_files :: "string list"
  inv_systemInstructions :: "string option"
  inv_message :: turn
  humanMessageId :: string
  inv_focusMode :: string

text \<open>
  A response of the route: \<^verbatim>\<open>Response.json(body, {status})\<close>, the 400 response of
  an invalid body (message \<^verbatim>\<open>Invalid request body\<close> with the issues), or the
  event stream of a turn that reached its handler.
\<close>

datatype ('h, 'm, 'e) response =
    Json nat json
  | InvalidRequestBody issues
  | EventStream "('h, 'm, 'e) invocation"

datatype error = TypeError

text \<open>
  \<^verbatim>\<open>key || Object.keys(obj)[0]\<close>, used as a property key: an absent or empty
  \<open>key\<close> falls back to the first key of \<open>obj\<close>, and to \<^verbatim>\<open>undefined\<close>, the
  property key \<^verbatim>\<open>"undefined"\<close>, when \<open>obj\<close> has no key.
\<close>

definition key_or_first :: "string option \<Rightarrow> (string \<times> 'a) list \<Rightarrow> string" where
  "key_or_first key obj =
     (case key of
        Some k \<Rightarrow> if k \<noteq> [] then k else (case obj of [] \<Rightarrow> ''undefined'' | (k0, _) # _ \<Rightarrow> k0)
      | None \<Rightarrow> (case obj of [] \<Rightarrow> ''undefined'' | (k0, _) # _ \<Rightarrow> k0))"

definition toBaseMessage :: "string \<times> string \<Rightarrow> base_message" where
  "toBaseMessage msg = (if fst msg = ''human'' then HumanMessage (snd msg) else AIMessage (snd msg))"

text \<open>
  Lines 280 to 379 of \<^verbatim>\<open>POST\<close>, inside the \<^verbatim>\<open>try\<close>. Reading a property of
  \<^verbatim>\<open>undefined\<close> throws a \<^verbatim>\<open>TypeError\<close>: this happens at line 290 when the
  chat provider is not in the catalog, at line 299 when the embedding provider is not,
  and at line 304 when the embedding model is not.
\<close>

definition resolve_and_dispatch ::
  "custom_openai \<Rightarrow> 'm providers \<Rightarrow> 'e providers \<Rightarrow> (string \<rightharpoonup> 'h) \<Rightarrow> body
     \<Rightarrow> error + ('h, 'm, 'e) response" where
  "resolve_and_dispatch cfg chatModelProviders embeddingModelProviders searchHandlers b =
     (case map_of chatModelProviders (key_or_first (provider (chatModel b)) chatModelProviders) of
        None \<Rightarrow> Inl TypeError
      | Some chatModelProvider \<Rightarrow>
     (let chatModel' = map_of chatModelProvider (key_or_first (name (chatModel b)) chatModelProvider)
      in case map_of embeddingModelProviders
                (key_or_first (provider (embeddingModel b)) embeddingModelProviders) of
        None \<Rightarrow> Inl TypeError
      | Some embeddingProvider \<Rightarrow>
     (case map_of embeddingProvider (key_or_first (name (embeddingModel b)) embeddingProvider) of
        None \<Rightarrow> Inl TypeError
      | Some embedding \<Rightarrow>
     (let llm =
            (if provider (chatModel b) = Some ''custom_openai'' then Some (ChatOpenAI cfg)
             else case chatModel' of
                    Some (Some m) \<Rightarrow> Some (CatalogModel m)
                  | _ \<Rightarrow> None)
      in case llm of
        None \<Rightarrow> Inr (Json 400 (JObj [(''error'', JStr ''Invalid chat model'')]))
      | Some l \<Rightarrow>
     (case embedding of
        None \<Rightarrow> Inr (Json 400 (JObj [(''error'', JStr ''Invalid embedding model'')]))
      | Some emb \<Rightarrow>
     (case searchHandlers (focusMode b) of
        None \<Rightarrow> Inr (Json 400 (JObj [(''message'', JStr ''Invalid focus mode'')]))
      | Some h \<Rightarrow>
          Inr (EventStream
            \<lparr>handler = h, query = content (message b),
             inv_history = map toBaseMessage (history b),
             inv_llm = l, inv_embedding = emb,
             inv_optimizationMode = optimizationMode b, inv_files = files b,
             inv_systemInstructions = systemInstructions b,
             inv_message = message b, humanMessageId = messageId (message b),
             inv_focusMode = focusMode b\<rparr>)))))))"

text \<open>
  \<^verbatim>\<open>POST\<close>. The request body is \<open>None\<close> when \<^verbatim>\<open>req.json()\<close> throws; every
  exception ends in the \<^verbatim>\<open>catch\<close> of line 380 and its 500 response.
\<close>

definition internal_error :: "('h, 'm, 'e) response" where
  "internal_error = Json 500 (JObj [(''message'', JStr ''An error occurred while processing chat request'')])"

definition POST ::
  "custom_openai \<Rightarrow> 'm providers \<Rightarrow> 'e providers \<Rightarrow> (string \<rightharpoonup> 'h) \<Rightarrow> json option
     \<Rightarrow> ('h, 'm, 'e) response" where
  "POST cfg chatModelProviders embeddingModelProviders searchHandlers req =
     (case req of
        None \<Rightarrow> internal_error
      | Some reqBody \<Rightarrow>
          (case safeValidateBody reqBody of
             Inl parse_error \<Rightarrow> InvalidRequestBody parse_error
           | Inr b \<Rightarrow>
               if content (message b) = []
               then Json 400 (JObj [(''message'', JStr ''Please provide a message to process'')])
               else (case resolve_and_dispatch cfg chatModelProviders embeddingModelProviders
                            searchHandlers b of
                       Inl e \<Rightarrow> internal_error
                     | Inr r \<Rightarrow> r)))"


subsection \<open>Example inputs\<close>

text \<open>
  Concrete inputs for the examples: an entropy source, stores, a file-descriptor
  deriver, catalogs, a handler registry and request bodies.
\<close>

definition example_entropy :: "nat \<Rightarrow> 8 word" where
  "example_entropy n = 0x2a"

definition empty_db :: db where
  "empty_db = \<lparr>chats = [], messages = [], nextId = 1\<rparr>"

definition example_file_details :: "string \<Rightarrow> json" where
  "example_file_details f = JObj [(''name'', JStr (f @ ''.txt'')), (''fileId'', JStr f)]"

definition chat_c1 :: chat where
  "chat_c1 = \<lparr>chat_id = ''c1'', title = ''hello'', chat_createdAt = ''t0'',
              chat_focusMode = ''webSearch'', chat_files = Some []\<rparr>"




definition example_config :: custom_openai where
  "example_config = \<lparr>apiKey = ''key'', modelName = ''custom'', baseURL = ''http://localhost''\<rparr>"

definition example_chat_models :: "string providers" where
  "example_chat_models = [(''openai'', [(''gpt'', Some ''GPT'')])]"

definition example_embedding_models :: "string providers" where
  "example_embedding_models = [(''openai'', [(''small'', Some ''EMB'')])]"

definition example_handlers :: "string \<rightharpoonup> string" where
  "example_handlers = map_of [(''webSearch'', ''WEB'')]"

definition example_message :: json where
  "example_message = JObj [(''messageId'', JStr ''m1''), (''chatId'', JStr ''c1''), (''content'', JStr ''hello'')]"

definition example_body :: json where
  "example_body = JObj [(''message'', example_message), (''optimizationMode'', JStr ''balanced''),
                        (''focusMode'', JStr ''webSearch'')]"

definition example_body_null :: json where
  "example_body_null = JObj [(''message'', example_message), (''optimizationMode'', JStr ''balanced''),
                        (''focusMode'', JStr ''webSearch''), (''systemInstructions'', JNull)]"

definition example_turn :: turn where
  "example_turn = \<lparr>messageId = ''m1'', chatId = ''c1'', content = ''hello''\<rparr>"


section \<open>Properties of the stream bridge\<close>

subsection \<open>The text of the frames\<close>

lemma quote_type: \<open>quoteJSONString ''type'' = ''"type"''\<close>
  by (simp add: quoteJSONString_def escape_char_def)
lemma quote_data: \<open>quoteJSONString ''data'' = ''"data"''\<close>
  by (simp add: quoteJSONString_def escape_char_def)
lemma quote_messageId: \<open>quoteJSONString ''messageId'' = ''"messageId"''\<close>
  by (simp add: quoteJSONString_def escape_char_def)
lemma quote_message: \<open>quoteJSONString ''message'' = ''"message"''\<close>
  by (simp add: quoteJSONString_def escape_char_def)
lemma quote_sources: \<open>quoteJSONString ''sources'' = ''"sources"''\<close>
  by (simp add: quoteJSONString_def escape_char_def)
lemma quote_messageEnd: \<open>quoteJSONString ''messageEnd'' = ''"messageEnd"''\<close>
  by (simp add: quoteJSONString_def escape_char_def)
lemma quote_error: \<open>quoteJSONString ''error'' = ''"error"''\<close>
  by (simp add: quoteJSONString_def escape_char_def)

lemmas quotes = quote_type quote_data quote_messageId quote_message quote_sources quote_messageEnd quote_error

lemma message_frame_text:
  \<open>message_frame mid f =
     ''{"type":"message","data":'' @ quoteJSONString f @ '',"messageId":'' @ quoteJSONString mid @ [CHR ''}'', CHR 0x0A]\<close>
  by (simp add: message_frame_def quotes)

lemma sources_frame_text:
  \<open>sources_frame mid s =
     ''{"type":"sources","data":'' @ stringify s @ '',"messageId":'' @ quoteJSONString mid @ [CHR ''}'', CHR 0x0A]\<close>
  by (simp add: sources_frame_def quotes)

lemma messageEnd_frame_text: \<open>messageEnd_frame = ''{"type":"messageEnd"}'' @ [CHR 0x0A]\<close>
  by (simp add: messageEnd_frame_def quotes)

lemma error_frame_text: \<open>error_frame d = ''{"type":"error","data":'' @ stringify d @ ''}''\<close>
  by (simp add: error_frame_def quotes)

lemma last_frames:
  "last (message_frame mid f) = CHR 0x0A" "last (sources_frame mid s) = CHR 0x0A"
  "last messageEnd_frame = CHR 0x0A" "last (error_frame x) = CHR ''}''"
  by (simp_all add: message_frame_def sources_frame_def messageEnd_frame_def error_frame_def)

lemma relayed_not_terminal:
  "c \<in> set (relayed mid e) \<Longrightarrow> c \<noteq> messageEnd_frame \<and> c \<noteq> error_frame d"
  by (cases "(mid, e)" rule: relayed.cases)
     (auto simp: message_frame_text sources_frame_text messageEnd_frame_text error_frame_text)

subsection \<open>Random identifiers\<close>

lemma length_toHex: "length (toHex bs) = 2 * length bs"
  by (induction bs) (simp_all add: toHex_def hex2_def)

lemma length_hexdigits: "length hexdigits = 16"
  by (simp add: hexdigits_def)

lemma hexdigit_nth: "n < 16 \<Longrightarrow> hexdigits ! n \<in> set hexdigits"
  using nth_mem [of n hexdigits] by (simp only: length_hexdigits)

lemma set_toHex: "set (toHex bs) \<subseteq> set hexdigits"
  by (induction bs) (simp_all add: toHex_def hex2_def hexdigit_nth)


lemma fresh_id:
  "length (toHex (randomBytes entropy 7 k)) = 14 \<and> set (toHex (randomBytes entropy 7 k)) \<subseteq> set hexdigits"
  by (simp add: length_toHex set_toHex randomBytes_def)

lemma example_id: "toHex (randomBytes example_entropy 7 0) = ''2a2a2a2a2a2a2a''"
  by (simp add: toHex_def randomBytes_def hex2_def hexdigits_def upt_rec example_entropy_def)

subsection \<open>Framing\<close>

text \<open>
  \<^verbatim>\<open>JSON.stringify\<close> never produces a raw newline, so a chunk that ends in a newline
  is one line; the message, sources and messageEnd frames are such lines, and the error
  frame contains no newline at all.
\<close>

lemma newline_not_hexdigit: "CHR 0x0A \<notin> set hexdigits"
  by (simp add: hexdigits_def)

lemma hexdigit_not_newline: "n < 16 \<Longrightarrow> CHR 0x0A \<noteq> hexdigits ! n"
  using hexdigit_nth [of n] newline_not_hexdigit by metis

lemma hex2_no_newline: "CHR 0x0A \<notin> set (hex2 n)"
proof -
  have "CHR 0x0A \<noteq> hexdigits ! ((n div 16) mod 16)" "CHR 0x0A \<noteq> hexdigits ! (n mod 16)"
    by (rule hexdigit_not_newline, simp)+
  then show ?thesis unfolding hex2_def by simp
qed

lemma escape_char_no_newline: "CHR 0x0A \<notin> set (escape_char c)"
  using hex2_no_newline [of "of_char c"] by (simp add: escape_char_def)

lemma quote_no_newline: "CHR 0x0A \<notin> set (quoteJSONString s)"
  by (induction s) (simp_all add: quoteJSONString_def escape_char_no_newline)

lemma show_nat_no_newline: "CHR 0x0A \<notin> set (show_nat n)"
proof (induction n rule: show_nat.induct)
  case (1 n)
  show ?case
  proof (cases "n < 10")
    case True
    then show ?thesis by (subst show_nat.simps) (simp add: hexdigit_not_newline)
  next
    case False
    with 1 show ?thesis by (subst show_nat.simps) (simp add: hexdigit_not_newline)
  qed
qed

lemma show_int_no_newline: "CHR 0x0A \<notin> set (show_int i)"
  by (simp add: show_int_def show_nat_no_newline)

lemma commas_no_newline: "(\<forall>x \<in> set xs. CHR 0x0A \<notin> set x) \<Longrightarrow> CHR 0x0A \<notin> set (commas xs)"
  by (induction xs rule: commas.induct) simp_all

lemma stringify_no_newline:
  "CHR 0x0A \<notin> set (stringify j)"
  "\<forall>x \<in> set (elements js). CHR 0x0A \<notin> set x"
  "\<forall>x \<in> set (members kvs). CHR 0x0A \<notin> set x"
  by (induction j and js and kvs rule: stringify_elements_members.induct)
     (simp_all add: quote_no_newline show_int_no_newline commas_no_newline)

lemma framed_records:
  "\<exists>body. message_frame mid f = body @ [CHR 0x0A] \<and> CHR 0x0A \<notin> set body"
  "\<exists>body. sources_frame mid s = body @ [CHR 0x0A] \<and> CHR 0x0A \<notin> set body"
  "\<exists>body. messageEnd_frame = body @ [CHR 0x0A] \<and> CHR 0x0A \<notin> set body"
  "CHR 0x0A \<notin> set (error_frame x)"
  using stringify_no_newline(1)
  by (simp_all only: message_frame_def sources_frame_def messageEnd_frame_def error_frame_def) blast+

subsection \<open>Events before the end of the stream\<close>

lemma emit_data:
  assumes "\<not> is_terminator (snd e)" "\<not> closed (conn st)"
  shows "chunks (conn (emit entropy cid e st)) = chunks (conn st) @ relayed (aiMessageId st) e"
    and "closed (conn (emit entropy cid e st)) = False"
    and "rejected (conn (emit entropy cid e st)) = rejected (conn st)"
    and "aiMessageId (emit entropy cid e st) = aiMessageId st"
    and "recievedMessage (emit entropy cid e st) = recievedMessage st @ fragment e"
    and "\<exists>rs. messages (store (emit entropy cid e st)) = messages (store st) @ rs \<and>
              list_all (\<lambda>m. row_role m = Source) rs \<and>
              nextId (store (emit entropy cid e st)) = nextId (store st) + length rs"
    and "chats (store (emit entropy cid e st)) = chats (store st)"
proof -
  obtain now ev where e: "e = (now, ev)" by (cases e)
  from assms(1) e obtain p where ev: "ev = Data p" by (cases ev) auto
  show "chunks (conn (emit entropy cid e st)) = chunks (conn st) @ relayed (aiMessageId st) e"
    using assms(2) by (cases p) (simp_all add: e ev writer_write_def Let_def)
  show "closed (conn (emit entropy cid e st)) = False"
    using assms(2) by (cases p) (simp_all add: e ev writer_write_def Let_def)
  show "rejected (conn (emit entropy cid e st)) = rejected (conn st)"
    using assms(2) by (cases p) (simp_all add: e ev writer_write_def Let_def)
  show "aiMessageId (emit entropy cid e st) = aiMessageId st"
    by (cases p) (simp_all add: e ev Let_def)
  show "recievedMessage (emit entropy cid e st) = recievedMessage st @ fragment e"
    by (cases p) (simp_all add: e ev Let_def)
  show "\<exists>rs. messages (store (emit entropy cid e st)) = messages (store st) @ rs \<and>
              list_all (\<lambda>m. row_role m = Source) rs \<and>
              nextId (store (emit entropy cid e st)) = nextId (store st) + length rs"
  proof (cases p)
    case (Sources s)
    let ?r = "\<lparr>row_id = nextId (store st),
               row_messageId = toHex (randomBytes entropy 7 (drawn st)), row_chatId = cid,
               row_role = Source, row_content = None, row_sources = Some s,
               row_createdAt = now\<rparr>"
    have "messages (store (emit entropy cid e st)) = messages (store st) @ [?r]
          \<and> list_all (\<lambda>m. row_role m = Source) [?r]
          \<and> nextId (store (emit entropy cid e st)) = nextId (store st) + length [?r]"
      by (simp add: e ev Sources Let_def)
    then show ?thesis by blast
  qed (simp_all add: e ev)
  show "chats (store (emit entropy cid e st)) = chats (store st)"
    by (cases p) (simp_all add: e ev Let_def)
qed

lemma deliver_append:
  "deliver entropy cid (xs @ ys) st = deliver entropy cid ys (deliver entropy cid xs st)"
  by (induction xs arbitrary: st) simp_all

lemma deliver_data:
  assumes "list_all (\<lambda>e. \<not> is_terminator (snd e)) evs" "\<not> closed (conn st)"
  shows "chunks (conn (deliver entropy cid evs st)) =
           chunks (conn st) @ concat (map (relayed (aiMessageId st)) evs)
         \<and> closed (conn (deliver entropy cid evs st)) = False
         \<and> rejected (conn (deliver entropy cid evs st)) = rejected (conn st)
         \<and> aiMessageId (deliver entropy cid evs st) = aiMessageId st
         \<and> recievedMessage (deliver entropy cid evs st) =
             recievedMessage st @ concat (map fragment evs)
         \<and> (\<exists>rs. messages (store (deliver entropy cid evs st)) = messages (store st) @ rs \<and>
                   list_all (\<lambda>m. row_role m = Source) rs \<and>
                   nextId (store (deliver entropy cid evs st)) = nextId (store st) + length rs)
         \<and> chats (store (deliver entropy cid evs st)) = chats (store st)"
  using assms
proof (induction evs arbitrary: st)
  case Nil
  then show ?case by simp
next
  case (Cons e evs)
  let ?st = "emit entropy cid e st"
  from Cons.prems have e: "\<not> is_terminator (snd e)" and rest: "list_all (\<lambda>e. \<not> is_terminator (snd e)) evs"
    by simp_all
  note step = emit_data [OF e Cons.prems(2), of entropy cid]
  from step(2) have open': "\<not> closed (conn ?st)" by simp
  note ih = Cons.IH [OF rest open']
  from step(6) obtain rs where rs: "messages (store ?st) = messages (store st) @ rs"
    "list_all (\<lambda>m. row_role m = Source) rs" "nextId (store ?st) = nextId (store st) + length rs"
    by blast
  from ih obtain rs' where rs': "messages (store (deliver entropy cid evs ?st)) = messages (store ?st) @ rs'"
    "list_all (\<lambda>m. row_role m = Source) rs'"
    "nextId (store (deliver entropy cid evs ?st)) = nextId (store ?st) + length rs'" by blast
  have "messages (store (deliver entropy cid (e # evs) st)) = messages (store st) @ (rs @ rs')
        \<and> list_all (\<lambda>m. row_role m = Source) (rs @ rs')
        \<and> nextId (store (deliver entropy cid (e # evs) st)) = nextId (store st) + length (rs @ rs')"
    using rs rs' by simp
  then have rows: "\<exists>rs. messages (store (deliver entropy cid (e # evs) st)) = messages (store st) @ rs \<and>
                     list_all (\<lambda>m. row_role m = Source) rs \<and>
                     nextId (store (deliver entropy cid (e # evs) st)) = nextId (store st) + length rs"
    by blast
  from ih step(1,3,4,5,7) rows show ?case by simp
qed

lemma closed_emit:
  assumes "closed (conn st)"
  shows "chunks (conn (emit entropy cid e st)) = chunks (conn st) \<and> closed (conn (emit entropy cid e st))"
proof -
  obtain now ev where e: "e = (now, ev)" by (cases e)
  show ?thesis
  proof (cases ev)
    case (Data p)
    with assms e show ?thesis by (cases p) (simp_all add: writer_write_def Let_def)
  next
    case End
    with assms e show ?thesis by (simp add: on_end_def writer_write_def writer_close_def)
  next
    case (Error d)
    with assms e show ?thesis by (simp add: on_error_def writer_write_def writer_close_def)
  qed
qed

lemma closed_deliver:
  "closed (conn st) \<Longrightarrow>
     chunks (conn (deliver entropy cid evs st)) = chunks (conn st)
     \<and> closed (conn (deliver entropy cid evs st))"
proof (induction evs arbitrary: st)
  case Nil
  then show ?case by simp
next
  case (Cons e evs)
  from closed_emit [OF Cons.prems, of entropy cid e] Cons.IH [of "emit entropy cid e st"]
  show ?case by simp
qed

lemma end_after_data:
  assumes "list_all (\<lambda>e. \<not> is_terminator (snd e)) pre" "\<not> closed w"
  shows "chunks (conn (handleEmitterEvents entropy (pre @ [(now, End)]) w cid d k)) =
           chunks w @ concat (map (relayed (toHex (randomBytes entropy 7 k))) pre) @ [messageEnd_frame]"
    and "closed (conn (handleEmitterEvents entropy (pre @ [(now, End)]) w cid d k))"
    and "\<exists>rs. messages (store (handleEmitterEvents entropy (pre @ [(now, End)]) w cid d k)) =
            messages d @ rs @
              [\<lparr>row_id = nextId d + length rs, row_messageId = toHex (randomBytes entropy 7 k),
                row_chatId = cid, row_role = Assistant,
                row_content = Some (concat (map fragment pre)), row_sources = None,
                row_createdAt = now\<rparr>]
          \<and> list_all (\<lambda>m. row_role m = Source) rs"
proof -
  let ?st0 = "bridge_init entropy w d k"
  let ?st1 = "deliver entropy cid pre ?st0"
  have open0: "\<not> closed (conn ?st0)" using assms(2) by (simp add: bridge_init_def)
  note data = deliver_data [OF assms(1) open0, of entropy cid]
  have run: "handleEmitterEvents entropy (pre @ [(now, End)]) w cid d k = on_end cid now ?st1"
    by (simp add: handleEmitterEvents_def deliver_append)
  from data show "chunks (conn (handleEmitterEvents entropy (pre @ [(now, End)]) w cid d k)) =
           chunks w @ concat (map (relayed (toHex (randomBytes entropy 7 k))) pre) @ [messageEnd_frame]"
    by (simp add: run on_end_def writer_write_def writer_close_def bridge_init_def)
  from data show "closed (conn (handleEmitterEvents entropy (pre @ [(now, End)]) w cid d k))"
    by (simp add: run on_end_def writer_write_def writer_close_def)
  from data obtain rs where rs: "messages (store ?st1) = messages (store ?st0) @ rs"
    "list_all (\<lambda>m. row_role m = Source) rs" "nextId (store ?st1) = nextId (store ?st0) + length rs"
    by blast
  from data have ids: "aiMessageId ?st1 = toHex (randomBytes entropy 7 k)"
    "recievedMessage ?st1 = concat (map fragment pre)"
    by (simp_all add: bridge_init_def)
  have "messages (store (handleEmitterEvents entropy (pre @ [(now, End)]) w cid d k)) =
            messages d @ rs @
              [\<lparr>row_id = nextId d + length rs, row_messageId = toHex (randomBytes entropy 7 k),
                row_chatId = cid, row_role = Assistant,
                row_content = Some (concat (map fragment pre)), row_sources = None,
                row_createdAt = now\<rparr>]"
    using rs ids by (simp add: run on_end_def bridge_init_def)
  with rs(2) show "\<exists>rs. messages (store (handleEmitterEvents entropy (pre @ [(now, End)]) w cid d k)) =
            messages d @ rs @
              [\<lparr>row_id = nextId d + length rs, row_messageId = toHex (randomBytes entropy 7 k),
                row_chatId = cid, row_role = Assistant,
                row_content = Some (concat (map fragment pre)), row_sources = None,
                row_createdAt = now\<rparr>]
          \<and> list_all (\<lambda>m. row_role m = Source) rs"
    by blast
qed

lemma data_arrival:
  assumes "list_all (\<lambda>e. \<not> is_terminator (snd e)) a" "\<not> closed w" "\<not> is_terminator (snd e)"
  shows "chunks (conn (handleEmitterEvents entropy (a @ [e]) w cid d k)) =
           chunks (conn (handleEmitterEvents entropy a w cid d k))
             @ relayed (toHex (randomBytes entropy 7 k)) e"
proof -
  let ?st0 = "bridge_init entropy w d k"
  have open0: "\<not> closed (conn ?st0)" using assms(2) by (simp add: bridge_init_def)
  note data = deliver_data [OF assms(1) open0, of entropy cid]
  from data have 1: "\<not> closed (conn (deliver entropy cid a ?st0))"
    and 2: "aiMessageId (deliver entropy cid a ?st0) = toHex (randomBytes entropy 7 k)"
    by (simp_all add: bridge_init_def)
  from emit_data(1) [OF assms(3) 1, of entropy cid] 2 show ?thesis
    by (simp add: handleEmitterEvents_def deliver_append)
qed

lemma emit_any:
  "aiMessageId (emit entropy cid e st) = aiMessageId st
   \<and> (\<exists>cs. chunks (conn (emit entropy cid e st)) = chunks (conn st) @ cs \<and>
          list_all (\<lambda>c. c = messageEnd_frame \<or> (\<exists>d. c = error_frame d) \<or>
                        (\<exists>f. c = message_frame (aiMessageId st) f) \<or>
                        (\<exists>s. c = sources_frame (aiMessageId st) s)) cs)
   \<and> (\<exists>rs. messages (store (emit entropy cid e st)) = messages (store st) @ rs \<and>
          list_all (\<lambda>m. row_role m = Assistant \<longrightarrow> row_messageId m = aiMessageId st) rs)"
proof -
  obtain now ev where e: "e = (now, ev)" by (cases e)
  show ?thesis
  proof (cases ev)
    case (Data p)
    show ?thesis
    proof (cases p)
      case (Response f)
      with Data e show ?thesis by (cases "closed (conn st)") (auto simp: writer_write_def)
    next
      case (Sources s)
      with Data e show ?thesis by (cases "closed (conn st)") (auto simp: writer_write_def Let_def)
    next
      case Unhandled
      with Data e show ?thesis by simp
    qed
  next
    case End
    with e show ?thesis
      by (cases "closed (conn st)") (auto simp: on_end_def writer_write_def writer_close_def)
  next
    case (Error d)
    with e show ?thesis
      by (cases "closed (conn st)") (auto simp: on_error_def writer_write_def writer_close_def)
  qed
qed

lemma deliver_any:
  "aiMessageId (deliver entropy cid evs st) = aiMessageId st
   \<and> (\<exists>cs. chunks (conn (deliver entropy cid evs st)) = chunks (conn st) @ cs \<and>
          list_all (\<lambda>c. c = messageEnd_frame \<or> (\<exists>d. c = error_frame d) \<or>
                        (\<exists>f. c = message_frame (aiMessageId st) f) \<or>
                        (\<exists>s. c = sources_frame (aiMessageId st) s)) cs)
   \<and> (\<exists>rs. messages (store (deliver entropy cid evs st)) = messages (store st) @ rs \<and>
          list_all (\<lambda>m. row_role m = Assistant \<longrightarrow> row_messageId m = aiMessageId st) rs)"
proof (induction evs arbitrary: st)
  case Nil
  show ?case by simp
next
  case (Cons e evs)
  let ?st = "emit entropy cid e st"
  let ?P = "\<lambda>c. c = messageEnd_frame \<or> (\<exists>d. c = error_frame d) \<or>
                 (\<exists>f. c = message_frame (aiMessageId st) f) \<or>
                 (\<exists>s. c = sources_frame (aiMessageId st) s)"
  let ?Q = "\<lambda>m. row_role m = Assistant \<longrightarrow> row_messageId m = aiMessageId st"
  from emit_any [of entropy cid e st] obtain cs rs where
    step: "aiMessageId ?st = aiMessageId st"
      "chunks (conn ?st) = chunks (conn st) @ cs" "list_all ?P cs"
      "messages (store ?st) = messages (store st) @ rs" "list_all ?Q rs"
    by blast
  from Cons.IH [of ?st] step(1) obtain cs' rs' where
    ih: "aiMessageId (deliver entropy cid evs ?st) = aiMessageId st"
      "chunks (conn (deliver entropy cid evs ?st)) = chunks (conn ?st) @ cs'" "list_all ?P cs'"
      "messages (store (deliver entropy cid evs ?st)) = messages (store ?st) @ rs'" "list_all ?Q rs'"
    by auto
  have c: "chunks (conn (deliver entropy cid (e # evs) st)) = chunks (conn st) @ (cs @ cs')"
    "list_all ?P (cs @ cs')"
    using step ih by simp_all
  have r: "messages (store (deliver entropy cid (e # evs) st)) = messages (store st) @ (rs @ rs')"
    "list_all ?Q (rs @ rs')"
    using step ih by simp_all
  from c have "\<exists>cs. chunks (conn (deliver entropy cid (e # evs) st)) = chunks (conn st) @ cs \<and> list_all ?P cs"
    by blast
  moreover from r have "\<exists>rs. messages (store (deliver entropy cid (e # evs) st)) = messages (store st) @ rs \<and> list_all ?Q rs"
    by blast
  moreover have "aiMessageId (deliver entropy cid (e # evs) st) = aiMessageId st"
    using ih(1) by simp
  ultimately show ?case by blast
qed

subsection \<open>Claims on the stream bridge\<close>

text \<open>
  Claim C1. When the stream emits data events and then \<^verbatim>\<open>end\<close> on an open connection,
  the last stored Message is the assistant Message and its content is the concatenation,
  in arrival order, of the response fragments; the rows stored before it in this turn
  are source rows; the client has received the frame of every data event in order and
  then the \<^verbatim>\<open>messageEnd\<close> frame; and each response fragment is written as a
  message frame at the moment it arrives. Inserts are taken to succeed.
\<close>

theorem response_fragments_persisted_and_relayed:
  assumes "list_all (\<lambda>e. \<not> is_terminator (snd e)) pre" and "\<not> closed w"
  shows "row_content (last (messages (store (handleEmitterEvents entropy (pre @ [(now, End)]) w cid d k))))
           = Some (concat (map fragment pre))
         \<and> row_role (last (messages (store (handleEmitterEvents entropy (pre @ [(now, End)]) w cid d k))))
           = Assistant
         \<and> list_all (\<lambda>m. row_role m = Source)
              (butlast (drop (length (messages d))
                 (messages (store (handleEmitterEvents entropy (pre @ [(now, End)]) w cid d k)))))
         \<and> chunks (conn (handleEmitterEvents entropy (pre @ [(now, End)]) w cid d k)) =
             chunks w @ concat (map (relayed (toHex (randomBytes entropy 7 k))) pre) @ [messageEnd_frame]
         \<and> (\<forall>a t f b. pre = a @ (t, Data (Response f)) # b \<longrightarrow>
               chunks (conn (handleEmitterEvents entropy (a @ [(t, Data (Response f))]) w cid d k)) =
                 chunks (conn (handleEmitterEvents entropy a w cid d k))
                   @ [message_frame (toHex (randomBytes entropy 7 k)) f])"
proof -
  let ?st = "handleEmitterEvents entropy (pre @ [(now, End)]) w cid d k"
  from end_after_data(3) [OF assms, of entropy now cid d k] obtain rs where
    rows: "messages (store ?st) =
            messages d @ rs @
              [\<lparr>row_id = nextId d + length rs, row_messageId = toHex (randomBytes entropy 7 k),
                row_chatId = cid, row_role = Assistant,
                row_content = Some (concat (map fragment pre)), row_sources = None,
                row_createdAt = now\<rparr>]"
    and src: "list_all (\<lambda>m. row_role m = Source) rs"
    by blast
  have 1: "row_content (last (messages (store ?st))) = Some (concat (map fragment pre))"
    by (simp add: rows)
  have 2: "row_role (last (messages (store ?st))) = Assistant"
    by (simp add: rows)
  have 3: "list_all (\<lambda>m. row_role m = Source) (butlast (drop (length (messages d)) (messages (store ?st))))"
    using src by (simp add: rows butlast_append)
  note 4 = end_after_data(1) [OF assms, of entropy now cid d k]
  have 5: "\<forall>a t f b. pre = a @ (t, Data (Response f)) # b \<longrightarrow>
               chunks (conn (handleEmitterEvents entropy (a @ [(t, Data (Response f))]) w cid d k)) =
                 chunks (conn (handleEmitterEvents entropy a w cid d k))
                   @ [message_frame (toHex (randomBytes entropy 7 k)) f]"
  proof (intro allI impI)
    fix a t f b
    assume split: "pre = a @ (t, Data (Response f)) # b"
    with assms(1) have a: "list_all (\<lambda>e. \<not> is_terminator (snd e)) a" by simp
    from data_arrival [OF a assms(2), of "(t, Data (Response f))" entropy cid d k]
    show "chunks (conn (handleEmitterEvents entropy (a @ [(t, Data (Response f))]) w cid d k)) =
                 chunks (conn (handleEmitterEvents entropy a w cid d k))
                   @ [message_frame (toHex (randomBytes entropy 7 k)) f]"
      by simp
  qed
  from 1 2 3 4 5 show ?thesis by blast
qed

theorem response_fragments_persisted_and_relayed_witness:
  "list_all (\<lambda>e. \<not> is_terminator (snd e))
     [(''t1'', Data (Response ''Hel'')), (''t2'', Data (Sources (JArr []))), (''t3'', Data (Response ''lo''))]
   \<and> \<not> closed new_writer
   \<and> row_content (last (messages (store (handleEmitterEvents example_entropy
        ([(''t1'', Data (Response ''Hel'')), (''t2'', Data (Sources (JArr []))),
          (''t3'', Data (Response ''lo''))] @ [(''t4'', End)])
        new_writer ''c1'' empty_db 0)))) = Some ''Hello''"
proof -
  let ?pre = "[(''t1'', Data (Response ''Hel'')), (''t2'', Data (Sources (JArr []))),
               (''t3'', Data (Response ''lo''))]"
  have h1: "list_all (\<lambda>e. \<not> is_terminator (snd e)) ?pre" by simp
  have h2: "\<not> closed new_writer" by (simp add: new_writer_def)
  from response_fragments_persisted_and_relayed [OF h1 h2, of example_entropy "''t4''" "''c1''" empty_db 0]
  have "row_content (last (messages (store (handleEmitterEvents example_entropy (?pre @ [(''t4'', End)])
          new_writer ''c1'' empty_db 0)))) =
        Some (concat (map fragment ?pre))"
    by blast
  with h1 h2 show ?thesis by simp
qed

text \<open>
  Claim C3, as amended. When the stream emits a terminating event (\<^verbatim>\<open>end\<close> or
  \<^verbatim>\<open>error\<close>) after data events on an open connection, the client receives the
  frames of the data events and then exactly one terminating frame, the
  \<^verbatim>\<open>messageEnd\<close> frame or the error frame; the connection is closed by the listener
  of that event and stays closed; and whatever events follow, no further frame reaches
  the client. No frame of a data event is a terminating frame.
\<close>

theorem terminating_event_closes_the_stream:
  assumes "list_all (\<lambda>e. \<not> is_terminator (snd e)) pre" and "is_terminator fin" and "\<not> closed w"
  shows "chunks (conn (handleEmitterEvents entropy (pre @ (now, fin) # post) w cid d k)) =
           chunks w @ concat (map (relayed (toHex (randomBytes entropy 7 k))) pre) @ [terminal_frame fin]
         \<and> closed (conn (handleEmitterEvents entropy (pre @ [(now, fin)]) w cid d k))
         \<and> closed (conn (handleEmitterEvents entropy (pre @ (now, fin) # post) w cid d k))
         \<and> chunks (conn (handleEmitterEvents entropy (pre @ (now, fin) # post) w cid d k)) =
             chunks (conn (handleEmitterEvents entropy (pre @ [(now, fin)]) w cid d k))
         \<and> (\<forall>c \<in> set (concat (map (relayed (toHex (randomBytes entropy 7 k))) pre)).
               c \<noteq> messageEnd_frame \<and> (\<forall>x. c \<noteq> error_frame x))"
proof -
  let ?st0 = "bridge_init entropy w d k"
  let ?st1 = "deliver entropy cid pre ?st0"
  let ?st2 = "emit entropy cid (now, fin) ?st1"
  have open0: "\<not> closed (conn ?st0)" using assms(3) by (simp add: bridge_init_def)
  note data = deliver_data [OF assms(1) open0, of entropy cid]
  have last_step: "chunks (conn ?st2) =
                chunks w @ concat (map (relayed (toHex (randomBytes entropy 7 k))) pre) @ [terminal_frame fin]
              \<and> closed (conn ?st2)"
    using data assms(2)
    by (cases fin) (simp_all add: on_end_def on_error_def writer_write_def writer_close_def bridge_init_def)
  have run1: "handleEmitterEvents entropy (pre @ [(now, fin)]) w cid d k = ?st2"
    by (simp add: handleEmitterEvents_def deliver_append)
  have run2: "handleEmitterEvents entropy (pre @ (now, fin) # post) w cid d k =
                deliver entropy cid post ?st2"
    by (simp add: handleEmitterEvents_def deliver_append)
  from last_step have cl: "closed (conn ?st2)" by simp
  note after = closed_deliver [OF cl, of entropy cid post]
  have distinct: "\<forall>c \<in> set (concat (map (relayed (toHex (randomBytes entropy 7 k))) pre)).
               c \<noteq> messageEnd_frame \<and> (\<forall>x. c \<noteq> error_frame x)"
    using relayed_not_terminal by auto
  from last_step after distinct show ?thesis by (simp add: run1 run2)
qed

theorem terminating_event_closes_the_stream_witness:
  "list_all (\<lambda>e. \<not> is_terminator (snd e)) [(''t1'', Data (Response ''Hi''))]
   \<and> is_terminator (Error (JStr ''boom'')) \<and> \<not> closed new_writer
   \<and> chunks (conn (handleEmitterEvents example_entropy
        ([(''t1'', Data (Response ''Hi''))] @ (''t2'', Error (JStr ''boom'')) # [(''t3'', Data (Response ''late''))])
        new_writer ''c1'' empty_db 0)) =
      [message_frame ''2a2a2a2a2a2a2a'' ''Hi'', error_frame (JStr ''boom'')]"
proof -
  have h1: "list_all (\<lambda>e. \<not> is_terminator (snd e)) [(''t1'', Data (Response ''Hi''))]" by simp
  have h2: "is_terminator (Error (JStr ''boom''))" by simp
  have h3: "\<not> closed new_writer" by (simp add: new_writer_def)
  from terminating_event_closes_the_stream [OF h1 h2 h3, of example_entropy "''t2''"
      "[(''t3'', Data (Response ''late''))]" "''c1''" empty_db 0]
  have "chunks (conn (handleEmitterEvents example_entropy
        ([(''t1'', Data (Response ''Hi''))] @ (''t2'', Error (JStr ''boom'')) # [(''t3'', Data (Response ''late''))])
        new_writer ''c1'' empty_db 0)) =
      chunks new_writer @ concat (map (relayed (toHex (randomBytes example_entropy 7 0)))
        [(''t1'', Data (Response ''Hi''))]) @ [terminal_frame (Error (JStr ''boom''))]"
    by blast
  with h1 h2 h3 show ?thesis by (simp add: example_id new_writer_def)
qed

text \<open>
  Claim C3, as stated, fails: the listeners have no guard for events that arrive after
  the terminating event. After \<^verbatim>\<open>end\<close>, a \<^verbatim>\<open>sources\<close> event still stores a source
  Message and a second \<^verbatim>\<open>end\<close> stores a second assistant Message, so the later events
  are not ignored.
\<close>

theorem events_after_end_counterexample:
  "messages (store (handleEmitterEvents example_entropy
      [(''t1'', End), (''t2'', Data (Sources (JArr []))), (''t3'', End)]
      new_writer ''c1'' empty_db 0))
   \<noteq> messages (store (handleEmitterEvents example_entropy [(''t1'', End)]
      new_writer ''c1'' empty_db 0))
   \<and> map row_role (messages (store (handleEmitterEvents example_entropy
      [(''t1'', End), (''t2'', Data (Sources (JArr []))), (''t3'', End)]
      new_writer ''c1'' empty_db 0)))
     = [Assistant, Source, Assistant]"
  by (simp add: handleEmitterEvents_def bridge_init_def on_end_def Let_def empty_db_def)

text \<open>
  Claim C4 fails on the error record. The listener of \<^verbatim>\<open>error\<close> writes
  \<^verbatim>\<open>JSON.stringify({type: 'error', data})\<close> without the newline that the three other
  writes append: on the error event with data \<^verbatim>\<open>"boom"\<close> the only chunk written is
  the JSON text, and its last character is not a newline.
\<close>

theorem error_frame_has_no_newline:
  \<open>chunks (conn (handleEmitterEvents example_entropy [(''t1'', Error (JStr ''boom''))]
      new_writer ''c1'' empty_db 0))
     = [''{"type":"error","data":"boom"}'']
   \<and> last (last (chunks (conn (handleEmitterEvents example_entropy [(''t1'', Error (JStr ''boom''))]
      new_writer ''c1'' empty_db 0)))) \<noteq> CHR 0x0A\<close>
  by (simp add: handleEmitterEvents_def bridge_init_def on_error_def new_writer_def
        writer_write_def writer_close_def error_frame_text quoteJSONString_def escape_char_def)

text \<open>
  Claim C9. The identifier of the turn is the hexadecimal text of seven fresh random
  bytes, so it has 14 characters, all hexadecimal digits. Whatever events the stream
  emits, every chunk the bridge writes is a message frame or a sources frame carrying
  that identifier, or a terminating frame, and every assistant Message the bridge stores
  has that identifier as its \<^verbatim>\<open>messageId\<close>.
\<close>

theorem every_frame_carries_the_turn_id:
  "length (toHex (randomBytes entropy 7 k)) = 14
   \<and> set (toHex (randomBytes entropy 7 k)) \<subseteq> set hexdigits
   \<and> (\<exists>cs. chunks (conn (handleEmitterEvents entropy evs w cid d k)) = chunks w @ cs \<and>
          list_all (\<lambda>c. c = messageEnd_frame \<or> (\<exists>x. c = error_frame x) \<or>
                        (\<exists>f. c = message_frame (toHex (randomBytes entropy 7 k)) f) \<or>
                        (\<exists>s. c = sources_frame (toHex (randomBytes entropy 7 k)) s)) cs)
   \<and> (\<exists>rs. messages (store (handleEmitterEvents entropy evs w cid d k)) = messages d @ rs \<and>
          list_all (\<lambda>m. row_role m = Assistant \<longrightarrow>
                         row_messageId m = toHex (randomBytes entropy 7 k)) rs)"
  using deliver_any [of entropy cid evs "bridge_init entropy w d k"] fresh_id [of entropy k]
  by (simp add: handleEmitterEvents_def bridge_init_def)

theorem every_frame_carries_the_turn_id_witness:
  "row_role (last (messages (store (handleEmitterEvents example_entropy
      [(''t1'', Data (Response ''Hi'')), (''t2'', End)] new_writer ''c1'' empty_db 0)))) = Assistant
   \<and> row_messageId (last (messages (store (handleEmitterEvents example_entropy
      [(''t1'', Data (Response ''Hi'')), (''t2'', End)] new_writer ''c1'' empty_db 0)))) = ''2a2a2a2a2a2a2a''
   \<and> chunks (conn (handleEmitterEvents example_entropy
      [(''t1'', Data (Response ''Hi'')), (''t2'', End)] new_writer ''c1'' empty_db 0)) =
      [message_frame ''2a2a2a2a2a2a2a'' ''Hi'', messageEnd_frame]"
proof -
  let ?st = "handleEmitterEvents example_entropy [(''t1'', Data (Response ''Hi'')), (''t2'', End)]
      new_writer ''c1'' empty_db 0"
  have role: "row_role (last (messages (store ?st))) = Assistant"
    by (simp add: handleEmitterEvents_def bridge_init_def on_end_def)
  have frames: "chunks (conn ?st) = [message_frame ''2a2a2a2a2a2a2a'' ''Hi'', messageEnd_frame]"
    by (simp add: handleEmitterEvents_def bridge_init_def on_end_def new_writer_def
          writer_write_def writer_close_def example_id)
  have ne: "messages (store ?st) \<noteq> []"
    by (simp add: handleEmitterEvents_def bridge_init_def on_end_def)
  have old: "messages empty_db = []"
    by (simp add: empty_db_def)
  from every_frame_carries_the_turn_id [of example_entropy 0
      "[(''t1'', Data (Response ''Hi'')), (''t2'', End)]" new_writer "''c1''" empty_db]
  have "list_all (\<lambda>m. row_role m = Assistant \<longrightarrow>
                       row_messageId m = toHex (randomBytes example_entropy 7 0)) (messages (store ?st))"
    by (simp add: old)
  with ne have "row_role (last (messages (store ?st))) = Assistant \<longrightarrow>
        row_messageId (last (messages (store ?st))) = toHex (randomBytes example_entropy 7 0)"
    by (simp add: list_all_iff)
  with role frames show ?thesis by (simp add: example_id)
qed

section \<open>Properties of the history reconciler\<close>

lemma chats_execute_message:
  "chats (execute (InsertMessage v) d) = chats d"
  "chats (execute (DeleteMessagesAfter i c) d) = chats d"
  by simp_all

lemma known_chat_unchanged:
  assumes "find (\<lambda>c. chat_id c = chatId m) (chats d) = Some c"
  shows "chats (handleHistorySave gfd t1 t2 m hid fm fs d) = chats d"
  using assms by (simp add: handleHistorySave_def Let_def split: option.splits)

lemma unknown_chat_inserted:
  assumes "find (\<lambda>c. chat_id c = chatId m) (chats d) = None"
  shows "chats (handleHistorySave gfd t1 t2 m hid fm fs d) =
           chats d @ [\<lparr>chat_id = chatId m, title = content m, chat_createdAt = t1,
                       chat_focusMode = fm, chat_files = Some (map gfd fs)\<rparr>]"
  using assms by (simp add: handleHistorySave_def Let_def split: option.splits)

lemma find_append_new:
  "find P xs = None \<Longrightarrow> P y \<Longrightarrow> find P (xs @ [y]) = Some y"
  by (induction xs) (auto split: if_splits)

lemma resubmission_found_in_this_chat:
  assumes "find (\<lambda>r. row_messageId r = hid) (messages d) = Some r"
  shows "messages (handleHistorySave gfd t1 t2 m hid fm fs d) =
           filter (\<lambda>x. \<not> (row_id r < row_id x \<and> row_chatId x = chatId m)) (messages d)"
    and "nextId (handleHistorySave gfd t1 t2 m hid fm fs d) = nextId d"
    and "r \<in> set (messages (handleHistorySave gfd t1 t2 m hid fm fs d))"
proof -
  show 1: "messages (handleHistorySave gfd t1 t2 m hid fm fs d) =
           filter (\<lambda>x. \<not> (row_id r < row_id x \<and> row_chatId x = chatId m)) (messages d)"
    using assms by (simp add: handleHistorySave_def Let_def split: option.splits)
  show "nextId (handleHistorySave gfd t1 t2 m hid fm fs d) = nextId d"
    using assms by (simp add: handleHistorySave_def Let_def split: option.splits)
  from assms have "r \<in> set (messages d)"
    by (auto simp: find_Some_iff)
  then show "r \<in> set (messages (handleHistorySave gfd t1 t2 m hid fm fs d))"
    by (simp add: 1)
qed



lemma find_None_key: "find (\<lambda>x. f x = k) xs = None \<Longrightarrow> k \<notin> set (map f xs)"
  by (induction xs) (auto split: if_splits)

lemma handleHistorySave_keeps_messageIds_distinct:
  assumes "distinct (map row_messageId (messages d))"
  shows "distinct (map row_messageId (messages (handleHistorySave gfd t1 t2 m hid fm fs d)))"
proof (cases "find (\<lambda>r. row_messageId r = hid) (messages d)")
  case None
  from find_None_key [OF None] assms show ?thesis
    using None by (simp add: handleHistorySave_def Let_def split: option.splits)
next
  case (Some r)
  from resubmission_found_in_this_chat(1) [OF Some] assms show ?thesis
    by (simp add: distinct_map_filter)
qed

subsection \<open>Claims on the history reconciler\<close>

text \<open>
  Claim C8. A turn on a chat identifier that has no Chat record inserts exactly one
  Chat, with the turn's content as title, the focus mode of the request, and the files
  derived from the turn's file references; any later turn with the same chat identifier
  leaves the table of chats as it is.
\<close>

theorem first_turn_creates_one_chat:
  assumes "find (\<lambda>c. chat_id c = chatId m) (chats d) = None"
  shows "chats (handleHistorySave gfd t1 t2 m hid fm fs d) =
           chats d @ [\<lparr>chat_id = chatId m, title = content m, chat_createdAt = t1,
                       chat_focusMode = fm, chat_files = Some (map gfd fs)\<rparr>]
         \<and> (\<forall>m2 gfd2 t3 t4 hid2 fm2 fs2. chatId m2 = chatId m \<longrightarrow>
               chats (handleHistorySave gfd2 t3 t4 m2 hid2 fm2 fs2
                        (handleHistorySave gfd t1 t2 m hid fm fs d))
                 = chats (handleHistorySave gfd t1 t2 m hid fm fs d))"
proof -
  let ?c = "\<lparr>chat_id = chatId m, title = content m, chat_createdAt = t1,
             chat_focusMode = fm, chat_files = Some (map gfd fs)\<rparr>"
  let ?d = "handleHistorySave gfd t1 t2 m hid fm fs d"
  note ins = unknown_chat_inserted [OF assms, of gfd t1 t2 hid fm fs]
  have found: "find (\<lambda>c. chat_id c = chatId m) (chats ?d) = Some ?c"
    using find_append_new [OF assms, of ?c] by (simp add: ins)
  have "\<forall>m2 gfd2 t3 t4 hid2 fm2 fs2. chatId m2 = chatId m \<longrightarrow>
          chats (handleHistorySave gfd2 t3 t4 m2 hid2 fm2 fs2 ?d) = chats ?d"
  proof (intro allI impI)
    fix m2 :: turn and gfd2 t3 t4 hid2 fm2 fs2
    assume "chatId m2 = chatId m"
    with found have "find (\<lambda>c. chat_id c = chatId m2) (chats ?d) = Some ?c" by simp
    from known_chat_unchanged [OF this]
    show "chats (handleHistorySave gfd2 t3 t4 m2 hid2 fm2 fs2 ?d) = chats ?d" .
  qed
  with ins show ?thesis by blast
qed

theorem first_turn_creates_one_chat_witness:
  "find (\<lambda>c. chat_id c = chatId \<lparr>messageId = ''m1'', chatId = ''c1'', content = ''hello''\<rparr>) (chats empty_db) = None
   \<and> chats (handleHistorySave example_file_details ''t1'' ''t2''
        \<lparr>messageId = ''m1'', chatId = ''c1'', content = ''hello''\<rparr> ''m1'' ''webSearch'' [] empty_db) =
      [\<lparr>chat_id = ''c1'', title = ''hello'', chat_createdAt = ''t1'', chat_focusMode = ''webSearch'',
        chat_files = Some []\<rparr>]
   \<and> chats (handleHistorySave example_file_details ''t3'' ''t4''
        \<lparr>messageId = ''m2'', chatId = ''c1'', content = ''again''\<rparr> ''m2'' ''webSearch'' []
        (handleHistorySave example_file_details ''t1'' ''t2''
          \<lparr>messageId = ''m1'', chatId = ''c1'', content = ''hello''\<rparr> ''m1'' ''webSearch'' [] empty_db)) =
      [\<lparr>chat_id = ''c1'', title = ''hello'', chat_createdAt = ''t1'', chat_focusMode = ''webSearch'',
        chat_files = Some []\<rparr>]"
proof -
  let ?m = "\<lparr>messageId = ''m1'', chatId = ''c1'', content = ''hello''\<rparr>"
  let ?m2 = "\<lparr>messageId = ''m2'', chatId = ''c1'', content = ''again''\<rparr>"
  have h: "find (\<lambda>c. chat_id c = chatId ?m) (chats empty_db) = None"
    by (simp add: empty_db_def)
  note t = first_turn_creates_one_chat [OF h, of example_file_details "''t1''" "''t2''" "''m1''"
      "''webSearch''" "[]"]
  from t have a: "chats (handleHistorySave example_file_details ''t1'' ''t2'' ?m ''m1'' ''webSearch'' [] empty_db) =
      chats empty_db @ [\<lparr>chat_id = chatId ?m, title = content ?m, chat_createdAt = ''t1'',
        chat_focusMode = ''webSearch'', chat_files = Some (map example_file_details [])\<rparr>]"
    by blast
  from t have "chatId ?m2 = chatId ?m \<longrightarrow>
      chats (handleHistorySave example_file_details ''t3'' ''t4'' ?m2 ''m2'' ''webSearch'' []
        (handleHistorySave example_file_details ''t1'' ''t2'' ?m ''m1'' ''webSearch'' [] empty_db)) =
      chats (handleHistorySave example_file_details ''t1'' ''t2'' ?m ''m1'' ''webSearch'' [] empty_db)"
    by blast
  then have b: "chats (handleHistorySave example_file_details ''t3'' ''t4'' ?m2 ''m2'' ''webSearch'' []
        (handleHistorySave example_file_details ''t1'' ''t2'' ?m ''m1'' ''webSearch'' [] empty_db)) =
      chats (handleHistorySave example_file_details ''t1'' ''t2'' ?m ''m1'' ''webSearch'' [] empty_db)"
    by simp
  from h a b show ?thesis by (simp add: empty_db_def)
qed

text \<open>
  Claim C6 fails. For a known Chat whose stored files differ in serialised form from the
  files derived from the turn, the update query is built but never executed, so the
  Chat keeps its old files: here the Chat has no file, the turn has one, the two
  serialisations differ, and the table of chats is unchanged, where executing the query
  would have changed it.
\<close>

theorem chat_files_not_updated:
  "stringify (JArr (case chat_files chat_c1 of None \<Rightarrow> [] | Some fs \<Rightarrow> fs))
     \<noteq> stringify (JArr (map example_file_details [''f1'']))
   \<and> chats (handleHistorySave example_file_details ''t1'' ''t2''
        \<lparr>messageId = ''m2'', chatId = ''c1'', content = ''with a file''\<rparr> ''m2'' ''webSearch'' [''f1'']
        \<lparr>chats = [chat_c1], messages = [], nextId = 1\<rparr>) = [chat_c1]
   \<and> chat_files chat_c1 = Some []
   \<and> chats (execute (UpdateChatFiles ''c1'' (map example_file_details [''f1'']))
        \<lparr>chats = [chat_c1], messages = [], nextId = 1\<rparr>) \<noteq> [chat_c1]"
  by (simp add: handleHistorySave_def Let_def chat_c1_def example_file_details_def)



section \<open>Properties of the route\<close>

lemma messageSchema_example: "messageSchema (Some example_message) = Some example_turn"
  by (simp add: messageSchema_def example_message_def z_string_min_def z_string_def example_turn_def)

lemma bodySchema_example:
  "bodySchema example_body =
     Some \<lparr>message = example_turn, optimizationMode = Balanced, focusMode = ''webSearch'',
           history = [], files = [], chatModel = \<lparr>provider = None, name = None\<rparr>,
           embeddingModel = \<lparr>provider = None, name = None\<rparr>,
           systemInstructions = Some DEFAULT_SYSTEM_INSTRUCTIONS\<rparr>"
  by (simp add: bodySchema_def example_body_def messageSchema_example optimizationSchema_def
        z_string_min_def z_string_def historySchema_def filesSchema_def z_default_empty_object_def
        chatModelSchema_def embeddingModelSchema_def z_string_optional_def systemInstructionsSchema_def)

lemma bodySchema_example_null:
  "bodySchema example_body_null =
     Some \<lparr>message = example_turn, optimizationMode = Balanced, focusMode = ''webSearch'',
           history = [], files = [], chatModel = \<lparr>provider = None, name = None\<rparr>,
           embeddingModel = \<lparr>provider = None, name = None\<rparr>,
           systemInstructions = None\<rparr>"
  by (simp add: bodySchema_def example_body_null_def messageSchema_example optimizationSchema_def
        z_string_min_def z_string_def historySchema_def filesSchema_def z_default_empty_object_def
        chatModelSchema_def embeddingModelSchema_def z_string_optional_def systemInstructionsSchema_def)

lemma content_example: "content example_turn = ''hello''"
  by (simp add: example_turn_def)

lemma messageSchema_content:
  "messageSchema x = Some m \<Longrightarrow> content m \<noteq> []"
  by (auto simp: messageSchema_def z_string_min_def
           split: option.splits json.splits if_splits)

lemma bodySchema_fields:
  assumes "bodySchema j = Some b"
  shows "\<exists>kvs. j = JObj kvs
           \<and> messageSchema (map_of kvs ''message'') = Some (message b)
           \<and> systemInstructionsSchema (map_of kvs ''systemInstructions'') = Some (systemInstructions b)"
proof (cases j)
  case (JObj kvs)
  with assms show ?thesis
    by (auto simp: bodySchema_def bind_eq_Some_conv)
qed (use assms in \<open>simp_all add: bodySchema_def\<close>)

lemma validated_content:
  "safeValidateBody j = Inr b \<Longrightarrow> content (message b) \<noteq> []"
proof -
  assume "safeValidateBody j = Inr b"
  then have "bodySchema j = Some b"
    by (simp add: safeValidateBody_def split: option.splits)
  from bodySchema_fields [OF this] show ?thesis
    using messageSchema_content by blast
qed

lemma dispatch_responses:
  assumes "resolve_and_dispatch cfg cps eps hs b = Inr r"
  shows "r = Json 400 (JObj [(''error'', JStr ''Invalid chat model'')])
         \<or> r = Json 400 (JObj [(''error'', JStr ''Invalid embedding model'')])
         \<or> r = Json 400 (JObj [(''message'', JStr ''Invalid focus mode'')])
         \<or> (\<exists>call. r = EventStream call \<and> inv_systemInstructions call = systemInstructions b
               \<and> query call = content (message b) \<and> hs (focusMode b) = Some (handler call))"
  using assms
  by (auto simp: resolve_and_dispatch_def Let_def split: option.splits if_splits)

lemma POST_stream:
  assumes "POST cfg cps eps hs req = EventStream call"
  shows "\<exists>j b. req = Some j \<and> bodySchema j = Some b
           \<and> resolve_and_dispatch cfg cps eps hs b = Inr (EventStream call)"
  using assms
  by (auto simp: POST_def safeValidateBody_def internal_error_def
           split: option.splits sum.splits if_splits)

lemma unknown_chat_provider:
  "map_of cps (key_or_first (provider (chatModel b)) cps) = None \<Longrightarrow>
     resolve_and_dispatch cfg cps eps hs b = Inl TypeError"
  by (simp add: resolve_and_dispatch_def)

lemma unknown_chat_model_of_known_provider:
  assumes "map_of cps (key_or_first (provider (chatModel b)) cps) = Some p"
    and "map_of p (key_or_first (name (chatModel b)) p) = None"
    and "provider (chatModel b) \<noteq> Some ''custom_openai''"
    and "map_of eps (key_or_first (provider (embeddingModel b)) eps) = Some ep"
    and "map_of ep (key_or_first (name (embeddingModel b)) ep) = Some e"
  shows "resolve_and_dispatch cfg cps eps hs b =
           Inr (Json 400 (JObj [(''error'', JStr ''Invalid chat model'')]))"
  using assms by (simp add: resolve_and_dispatch_def)

subsection \<open>Claims on the route\<close>

text \<open>
  Claim C10. A body that passes the schema has a non-empty \<^verbatim>\<open>message.content\<close>, and
  the route never answers with the 400 response \<^verbatim>\<open>Please provide a message to process\<close>
  of the guard at lines 271 to 278, whatever the request, catalogs and registry.
\<close>

theorem empty_content_guard_unreachable:
  "(safeValidateBody j = Inr b \<longrightarrow> content (message b) \<noteq> [])
   \<and> POST cfg cps eps hs req \<noteq> Json 400 (JObj [(''message'', JStr ''Please provide a message to process'')])"
proof
  show "safeValidateBody j = Inr b \<longrightarrow> content (message b) \<noteq> []"
    using validated_content by blast
next
  let ?guard = "Json 400 (JObj [(''message'', JStr ''Please provide a message to process'')])"
  show "POST cfg cps eps hs req \<noteq> ?guard"
  proof (cases req)
    case None
    then show ?thesis by (simp add: POST_def internal_error_def)
  next
    case (Some reqBody)
    show ?thesis
    proof (cases "safeValidateBody reqBody")
      case (Inl e)
      with Some show ?thesis by (simp add: POST_def)
    next
      case (Inr b')
      from validated_content [OF Inr] have ne: "content (message b') \<noteq> []" .
      show ?thesis
      proof (cases "resolve_and_dispatch cfg cps eps hs b'")
        case (Inl e)
        with Some Inr ne show ?thesis by (simp add: POST_def internal_error_def)
      next
        case (Inr r)
        from dispatch_responses [OF Inr] have "r \<noteq> ?guard" by auto
        with Some \<open>safeValidateBody reqBody = Inr b'\<close> ne Inr show ?thesis
          by (simp add: POST_def)
      qed
    qed
  qed
qed

theorem empty_content_guard_unreachable_witness:
  "safeValidateBody example_body =
     Inr \<lparr>message = example_turn, optimizationMode = Balanced, focusMode = ''webSearch'',
           history = [], files = [], chatModel = \<lparr>provider = None, name = None\<rparr>,
           embeddingModel = \<lparr>provider = None, name = None\<rparr>,
           systemInstructions = Some DEFAULT_SYSTEM_INSTRUCTIONS\<rparr>
   \<and> content example_turn \<noteq> []"
proof -
  let ?b = "\<lparr>message = example_turn, optimizationMode = Balanced, focusMode = ''webSearch'',
           history = [], files = [], chatModel = \<lparr>provider = None, name = None\<rparr>,
           embeddingModel = \<lparr>provider = None, name = None\<rparr>,
           systemInstructions = Some DEFAULT_SYSTEM_INSTRUCTIONS\<rparr>"
  have h: "safeValidateBody example_body = Inr ?b"
    by (simp add: safeValidateBody_def bodySchema_example)
  from empty_content_guard_unreachable [of example_body ?b] h
  have "content (message ?b) \<noteq> []" by blast
  with h show ?thesis by simp
qed

text \<open>
  Claim C7, as amended. When a request reaches its handler, the handler is called with
  the built-in instructions if the body has no \<^verbatim>\<open>systemInstructions\<close> property, with
  \<^verbatim>\<open>null\<close> if the property is \<^verbatim>\<open>null\<close>, and with the string itself if it is a string.
\<close>

theorem absent_instructions_default:
  assumes "POST cfg cps eps hs (Some (JObj kvs)) = EventStream call"
  shows "(map_of kvs ''systemInstructions'' = None \<longrightarrow>
            inv_systemInstructions call = Some DEFAULT_SYSTEM_INSTRUCTIONS)
         \<and> (map_of kvs ''systemInstructions'' = Some JNull \<longrightarrow> inv_systemInstructions call = None)
         \<and> (\<forall>s. map_of kvs ''systemInstructions'' = Some (JStr s) \<longrightarrow>
               inv_systemInstructions call = Some s)"
proof -
  from POST_stream [OF assms] obtain b where
    b: "bodySchema (JObj kvs) = Some b" and
    r: "resolve_and_dispatch cfg cps eps hs b = Inr (EventStream call)"
    by auto
  from dispatch_responses [OF r] have 1: "inv_systemInstructions call = systemInstructions b"
    by auto
  from bodySchema_fields [OF b] have
    2: "systemInstructionsSchema (map_of kvs ''systemInstructions'') = Some (systemInstructions b)"
    by auto
  from 1 2 show ?thesis
    by (auto simp: systemInstructionsSchema_def)
qed

theorem absent_instructions_default_witness:
  "POST example_config example_chat_models example_embedding_models example_handlers
        (Some example_body) =
     EventStream \<lparr>handler = ''WEB'', query = ''hello'', inv_history = [],
        inv_llm = CatalogModel ''GPT'', inv_embedding = ''EMB'', inv_optimizationMode = Balanced,
        inv_files = [], inv_systemInstructions = Some DEFAULT_SYSTEM_INSTRUCTIONS,
        inv_message = example_turn, humanMessageId = ''m1'', inv_focusMode = ''webSearch''\<rparr>
   \<and> map_of [(''message'', example_message), (''optimizationMode'', JStr ''balanced''),
              (''focusMode'', JStr ''webSearch'')] ''systemInstructions'' = None"
proof -
  let ?kvs = "[(''message'', example_message), (''optimizationMode'', JStr ''balanced''),
               (''focusMode'', JStr ''webSearch'')]"
  let ?call = "\<lparr>handler = ''WEB'', query = ''hello'', inv_history = [],
        inv_llm = CatalogModel ''GPT'', inv_embedding = ''EMB'', inv_optimizationMode = Balanced,
        inv_files = [], inv_systemInstructions = systemInstructions
          \<lparr>message = example_turn, optimizationMode = Balanced, focusMode = ''webSearch'',
           history = [], files = [], chatModel = \<lparr>provider = None, name = None\<rparr>,
           embeddingModel = \<lparr>provider = None, name = None\<rparr>,
           systemInstructions = Some DEFAULT_SYSTEM_INSTRUCTIONS\<rparr>,
        inv_message = example_turn, humanMessageId = ''m1'', inv_focusMode = ''webSearch''\<rparr>"
  have run: "POST example_config example_chat_models example_embedding_models example_handlers
        (Some (JObj ?kvs)) = EventStream ?call"
    using bodySchema_example
    by (simp add: POST_def safeValidateBody_def content_example example_body_def
          resolve_and_dispatch_def key_or_first_def example_chat_models_def
          example_embedding_models_def example_handlers_def)
       (simp add: example_turn_def)
  have absent: "map_of ?kvs ''systemInstructions'' = None" by simp
  from absent_instructions_default [OF run] absent
  have "inv_systemInstructions ?call = Some DEFAULT_SYSTEM_INSTRUCTIONS" by blast
  with run absent show ?thesis by (simp add: example_body_def)
qed

text \<open>
  Claim C7, as stated, fails for \<^verbatim>\<open>null\<close>: the schema accepts it, the default does not
  replace it, and the handler is called with \<^verbatim>\<open>null\<close> as its instructions.
\<close>

theorem null_instructions_counterexample:
  "POST example_config example_chat_models example_embedding_models example_handlers
        (Some example_body_null) =
     EventStream \<lparr>handler = ''WEB'', query = ''hello'', inv_history = [],
        inv_llm = CatalogModel ''GPT'', inv_embedding = ''EMB'', inv_optimizationMode = Balanced,
        inv_files = [], inv_systemInstructions = None, inv_message = example_turn,
        humanMessageId = ''m1'', inv_focusMode = ''webSearch''\<rparr>"
  by (simp add: POST_def safeValidateBody_def bodySchema_example_null content_example
        resolve_and_dispatch_def key_or_first_def example_chat_models_def
        example_embedding_models_def example_handlers_def)
     (simp add: example_turn_def)

text \<open>
  Claim C5 fails. With an empty catalog of chat models, an empty catalog of embedding
  models, or an embedding provider without models, the resolution reads a property of
  \<^verbatim>\<open>undefined\<close> before the checks of lines 319 and 323 are reached; the
  \<^verbatim>\<open>TypeError\<close> is caught at line 380 and the response is the generic 500, not the
  400 \<^verbatim>\<open>Invalid chat model\<close> or \<^verbatim>\<open>Invalid embedding model\<close>.
\<close>

theorem missing_provider_is_internal_error:
  "POST example_config ([] :: string providers) example_embedding_models example_handlers
        (Some example_body) = Json 500 (JObj [(''message'', JStr ''An error occurred while processing chat request'')])
   \<and> POST example_config example_chat_models ([] :: string providers) example_handlers
        (Some example_body) = Json 500 (JObj [(''message'', JStr ''An error occurred while processing chat request'')])
   \<and> POST example_config example_chat_models [(''openai'', [])] example_handlers
        (Some example_body) = (Json 500 (JObj [(''message'', JStr ''An error occurred while processing chat request'')])
          :: (string, string, string) response)"
  by (simp add: POST_def safeValidateBody_def bodySchema_example content_example
        resolve_and_dispatch_def key_or_first_def example_chat_models_def
        example_embedding_models_def example_handlers_def internal_error_def)

end
